theory Spec2Isabelle
  imports Complex_Main "HOL-Library.Sublist"
begin

section \<open>Job store (orchestrator/database.py)\<close>

text \<open>
  The orchestrator keeps three tables: jobs, telemetry samples and audit reports.
  A job row is a record; the status column is the enumeration of database.py.
  Time stamps are readings of a clock kept in the system state.
\<close>

datatype JobStatus =
  PENDING | BUILDING | CHECKING | AWAITING_APPROVAL | APPROVED | REJECTED | COMPLETED | FAILED

record Job =
  task :: string
  status :: JobStatus
  project_path :: string
  created_at :: nat
  completed_at :: "nat option"
  builder_container_id :: "string option"
  checker_container_id :: "string option"
  error_message :: "string option"

text \<open>Exceptions raised by the code or by the libraries it calls, with Python's \<open>str(e)\<close>.\<close>

datatype exn =
  NoResultFound
  | KeyError string
  | TypeError string
  | RuntimeError string
  | TimeoutError string
  | DriverError string

fun str_exn :: "exn \<Rightarrow> string" where
  "str_exn NoResultFound = ''No row was found when one was required''"
| "str_exn (KeyError k) = [CHR 0x27] @ k @ [CHR 0x27]"
| "str_exn (TypeError m) = m"
| "str_exn (RuntimeError m) = m"
| "str_exn (TimeoutError m) = m"
| "str_exn (DriverError m) = m"

text \<open>
  Column values of the two append-only tables. A row is the list of the keyword
  arguments its constructor accepted.
\<close>

datatype pyval = PyStr string | PyFloat real | PyNone

type_synonym row = "(string \<times> pyval) list"

definition Telemetry_columns :: "string list" where
  "Telemetry_columns =
     [''id'', ''job_id'', ''timestamp'', ''cpu_percent'', ''ram_mb'', ''current_tool'',
      ''container_id'']"

definition AuditLog_columns :: "string list" where
  "AuditLog_columns = [''id'', ''job_id'', ''report'', ''created_at'']"

text \<open>
  The classes Telemetry and AuditLog define no \<open>__init__\<close>; they inherit the constructor
  of the declarative base, which walks the keyword arguments in order and raises
  TypeError at the first one that is not an attribute of the class.
\<close>

definition declarative_constructor :: "string \<Rightarrow> string list \<Rightarrow> row \<Rightarrow> exn + row" where
  "declarative_constructor cls columns kwargs =
     (case filter (\<lambda>k. k \<notin> set columns) (map fst kwargs) of
        [] \<Rightarrow> Inr kwargs
      | k # _ \<Rightarrow>
          Inl (TypeError ([CHR 0x27] @ k @ [CHR 0x27] @
                 '' is an invalid keyword argument for '' @ cls)))"

definition Telemetry :: "row \<Rightarrow> exn + row" where
  "Telemetry kwargs = declarative_constructor ''Telemetry'' Telemetry_columns kwargs"

definition AuditLog :: "row \<Rightarrow> exn + row" where
  "AuditLog kwargs = declarative_constructor ''AuditLog'' AuditLog_columns kwargs"

section \<open>Sandbox driver (orchestrator/docker_manager.py)\<close>

text \<open>
  The Docker daemon is modelled by what the orchestrator can observe of it: the
  containers (id, name, status with exit code) in listing order, and the volume names.
\<close>

datatype container_state = Running | Paused | Exited int | Dead int

record container =
  cname :: string
  cstate :: container_state

text \<open>The per-job callback bus: two one-shot flags and the data slot of the error text.\<close>

record events =
  error_event :: bool
  complete_event :: bool
  data_error :: "string option"

record sys =
  jobs :: "string \<rightharpoonup> Job"
  telemetry :: "row list"
  audit_logs :: "row list"
  containers :: "(string \<times> container) list"
  volumes :: "string list"
  active_jobs :: "string list"
  job_events :: "string \<rightharpoonup> events"
  queue :: "string list"
  max_concurrent :: nat
  status_log :: "(string \<times> JobStatus) list"
  clock :: nat

text \<open>
  \<open>status_log\<close> is the sequence of "Job status updated" lines that
  \<open>_update_job_status\<close> sends to the logger, one per committed write.
\<close>

definition workspace_volume :: "string \<Rightarrow> string" where
  "workspace_volume job_id = ''icarus_workspace_'' @ job_id"

text \<open>
  \<open>stop_container\<close> stops and removes the container; every exception (the container
  is not there) is caught and logged inside the method.
\<close>

definition stop_container :: "sys \<Rightarrow> string \<Rightarrow> sys" where
  "stop_container st container_id =
     (case map_of (containers st) container_id of
        None \<Rightarrow> st
      | Some c \<Rightarrow> st\<lparr>containers := filter (\<lambda>kc. fst kc \<noteq> container_id) (containers st)\<rparr>)"

text \<open>\<open>cleanup_volume\<close> removes the volume; a missing volume is caught and logged.\<close>

definition cleanup_volume :: "sys \<Rightarrow> string \<Rightarrow> sys" where
  "cleanup_volume st volume_name =
     (if volume_name \<in> set (volumes st)
      then st\<lparr>volumes := removeAll volume_name (volumes st)\<rparr>
      else st)"

section \<open>Status updates, approval and rejection (orchestrator/job_queue.py)\<close>

text \<open>
  \<open>_update_job_status\<close>: \<open>scalar_one()\<close> raises NoResultFound for a missing job, before
  anything is written. The status is assigned whatever the current status is; the error
  message is stored only when it is truthy (neither None nor empty); terminal statuses
  stamp \<open>completed_at\<close>.
\<close>

definition update_job_status ::
  "sys \<Rightarrow> string \<Rightarrow> JobStatus \<Rightarrow> string option \<Rightarrow> exn + sys" where
  "update_job_status st job_id s error_msg =
     (case jobs st job_id of
        None \<Rightarrow> Inl NoResultFound
      | Some job \<Rightarrow>
          let job1 = job\<lparr>status := s\<rparr>;
              job2 = (case error_msg of
                        None \<Rightarrow> job1
                      | Some m \<Rightarrow> if m = [] then job1 else job1\<lparr>error_message := Some m\<rparr>);
              job3 = (if s = COMPLETED \<or> s = FAILED \<or> s = REJECTED
                      then job2\<lparr>completed_at := Some (clock st)\<rparr> else job2)
          in Inr (st\<lparr>jobs := (jobs st)(job_id \<mapsto> job3),
                     status_log := status_log st @ [(job_id, s)]\<rparr>))"

text \<open>
  The cleanup block shared by \<open>approve_job\<close> and \<open>reject_job\<close>: stop the recorded
  containers (a handle that is None or empty is skipped), then remove the workspace
  volume. It raises only when the job row is missing.
\<close>

definition stop_if_recorded :: "sys \<Rightarrow> string option \<Rightarrow> sys" where
  "stop_if_recorded st cid =
     (case cid of
        None \<Rightarrow> st
      | Some c \<Rightarrow> if c = [] then st else stop_container st c)"

definition cleanup_resources :: "sys \<Rightarrow> string \<Rightarrow> exn + sys" where
  "cleanup_resources st job_id =
     (case jobs st job_id of
        None \<Rightarrow> Inl NoResultFound
      | Some job \<Rightarrow>
          let st1 = stop_if_recorded st (builder_container_id job);
              st2 = stop_if_recorded st1 (checker_container_id job)
          in Inr (cleanup_volume st2 (workspace_volume job_id)))"

text \<open>
  \<open>approve_job\<close> and \<open>reject_job\<close> return the state reached and the exception that
  escaped, if any. Neither reads the job's status before writing.
\<close>

definition approve_job :: "sys \<Rightarrow> string \<Rightarrow> sys \<times> exn option" where
  "approve_job st job_id =
     (case update_job_status st job_id APPROVED None of
        Inl e \<Rightarrow> (st, Some e)
      | Inr st1 \<Rightarrow>
          (case cleanup_resources st1 job_id of
             Inl e \<Rightarrow> (st1, Some e)
           | Inr st2 \<Rightarrow>
               (case update_job_status st2 job_id COMPLETED None of
                  Inl e \<Rightarrow> (st2, Some e)
                | Inr st3 \<Rightarrow> (st3, None))))"

definition reject_job :: "sys \<Rightarrow> string \<Rightarrow> string option \<Rightarrow> sys \<times> exn option" where
  "reject_job st job_id comment =
     (case update_job_status st job_id REJECTED comment of
        Inl e \<Rightarrow> (st, Some e)
      | Inr st1 \<Rightarrow>
          (case cleanup_resources st1 job_id of
             Inl e \<Rightarrow> (st1, Some e)
           | Inr st2 \<Rightarrow> (st2, None)))"

text \<open>
  The HTTP adapter of main.py (\<open>POST /jobs/{id}/approve\<close>): any exception becomes a 500
  whose detail is \<open>str(e)\<close>.
\<close>

datatype http = HTTP_200 string | HTTP_500 string

definition approve_endpoint :: "sys \<Rightarrow> string \<Rightarrow> bool \<Rightarrow> string option \<Rightarrow> sys \<times> http" where
  "approve_endpoint st job_id approved comment =
     (if approved
      then (case approve_job st job_id of
              (st', None) \<Rightarrow> (st', HTTP_200 ''approved'')
            | (st', Some e) \<Rightarrow> (st', HTTP_500 (str_exn e)))
      else (case reject_job st job_id comment of
              (st', None) \<Rightarrow> (st', HTTP_200 ''rejected'')
            | (st', Some e) \<Rightarrow> (st', HTTP_500 (str_exn e))))"

section \<open>Agent callbacks (orchestrator/main.py)\<close>

text \<open>
  The callback body is a JSON object; the handler reads these keys only. A key that is
  absent is None.
\<close>

record payload =
  p_current_tool :: "string option"
  p_cpu_usage :: "real option"
  p_ram_usage_mb :: "real option"
  p_audit_report :: "string option"
  p_status :: "string option"
  p_error :: "string option"

definition store_telemetry :: "sys \<Rightarrow> string \<Rightarrow> payload \<Rightarrow> exn + sys" where
  "store_telemetry st job_id data =
     (case p_current_tool data of
        None \<Rightarrow> Inr st
      | Some tool \<Rightarrow>
          (case Telemetry
                  [(''job_id'', PyStr job_id),
                   (''cpu_usage'', PyFloat (case p_cpu_usage data of None \<Rightarrow> 0 | Some v \<Rightarrow> v)),
                   (''ram_usage_mb'',
                      PyFloat (case p_ram_usage_mb data of None \<Rightarrow> 0 | Some v \<Rightarrow> v)),
                   (''current_tool'', PyStr tool)] of
             Inl e \<Rightarrow> Inl e
           | Inr r \<Rightarrow> Inr (st\<lparr>telemetry := telemetry st @ [r]\<rparr>)))"

definition store_audit :: "sys \<Rightarrow> string \<Rightarrow> payload \<Rightarrow> exn + sys" where
  "store_audit st job_id data =
     (case p_audit_report data of
        None \<Rightarrow> Inr st
      | Some report \<Rightarrow>
          (case AuditLog [(''job_id'', PyStr job_id), (''audit_report'', PyStr report)] of
             Inl e \<Rightarrow> Inl e
           | Inr r \<Rightarrow> Inr (st\<lparr>audit_logs := audit_logs st @ [r]\<rparr>)))"

text \<open>
  The signals: \<open>status == "error"\<close> is tested first, \<open>"completed"\<close> in the \<open>elif\<close>. A flag
  is set only when the job has a bus in \<open>job_events\<close>.
\<close>

definition signal_events :: "sys \<Rightarrow> string \<Rightarrow> payload \<Rightarrow> sys" where
  "signal_events st job_id data =
     (if p_status data = Some ''error'' then
        (let error_msg = (case p_error data of None \<Rightarrow> ''Unknown error'' | Some m \<Rightarrow> m)
         in case job_events st job_id of
              None \<Rightarrow> st
            | Some ev \<Rightarrow>
                st\<lparr>job_events :=
                     (job_events st)(job_id \<mapsto> ev\<lparr>data_error := Some error_msg,
                                                   error_event := True\<rparr>)\<rparr>)
      else if p_status data = Some ''completed'' then
        (case job_events st job_id of
           None \<Rightarrow> st
         | Some ev \<Rightarrow>
             st\<lparr>job_events := (job_events st)(job_id \<mapsto> ev\<lparr>complete_event := True\<rparr>)\<rparr>)
      else st)"

text \<open>
  \<open>agent_callback\<close>: telemetry, then audit, then the signals, all inside one \<open>try\<close>; any
  exception is answered by a 500 and the rest of the handler is skipped.
\<close>

definition agent_callback :: "sys \<Rightarrow> string \<Rightarrow> payload \<Rightarrow> sys \<times> http" where
  "agent_callback st job_id data =
     (case store_telemetry st job_id data of
        Inl e \<Rightarrow> (st, HTTP_500 ''Failed to process callback'')
      | Inr st1 \<Rightarrow>
          (case store_audit st1 job_id data of
             Inl e \<Rightarrow> (st1, HTTP_500 ''Failed to process callback'')
           | Inr st2 \<Rightarrow> (signal_events st2 job_id data, HTTP_200 ''acknowledged'')))"

section \<open>Telemetry sampler\<close>

text \<open>Python's \<open>str\<close> of an integer, for the f-strings of the error messages.\<close>

definition digit_char :: "nat \<Rightarrow> char" where
  "digit_char d = ''0123456789'' ! d"

fun str_nat :: "nat \<Rightarrow> string" where
  "str_nat n = (if n < 10 then [digit_char n] else str_nat (n div 10) @ [digit_char (n mod 10)])"

declare str_nat.simps [simp del]

definition str_int :: "int \<Rightarrow> string" where
  "str_int i = (if i < 0 then CHR ''-'' # str_nat (nat (- i)) else str_nat (nat i))"

text \<open>One reading of \<open>container.stats(stream=False)\<close>.\<close>

record sample =
  cpu_delta :: real
  system_delta :: real
  mem_usage :: real

text \<open>
  \<open>_collect_telemetry\<close>: one list element per loop iteration. The loop ends when the
  container is gone or not running, and at the first exception (logged, then \<open>break\<close>).
\<close>

fun collect_telemetry :: "sys \<Rightarrow> string \<Rightarrow> string \<Rightarrow> sample list \<Rightarrow> sys" where
  "collect_telemetry st job_id container_id [] = st"
| "collect_telemetry st job_id container_id (s # rest) =
     (case map_of (containers st) container_id of
        None \<Rightarrow> st
      | Some c \<Rightarrow>
          if cstate c \<noteq> Running then st
          else
            (let cpu_percent =
                   (if system_delta s > 0 then (cpu_delta s / system_delta s) * 100 else 0);
                 mem_usage_mb = mem_usage s / (1024 * 1024)
             in case Telemetry
                       [(''job_id'', PyStr job_id),
                        (''cpu_usage'', PyFloat cpu_percent),
                        (''ram_usage_mb'', PyFloat mem_usage_mb),
                        (''container_id'', PyStr container_id)] of
                  Inl e \<Rightarrow> st
                | Inr r \<Rightarrow>
                    collect_telemetry (st\<lparr>telemetry := telemetry st @ [r]\<rparr>)
                      job_id container_id rest))"

section \<open>Supervising one stage\<close>

datatype wait_result = Pending | Returned int | Raised exn

text \<open>
  One iteration of the loop of \<open>_wait_for_container\<close>, reading the elapsed seconds
  \<open>elapsed\<close>: a missing container raises, an exited or dead one returns its exit code,
  a budget exceeded stops the container and raises; otherwise the loop sleeps and
  goes on (Pending).
\<close>

definition wait_for_container_poll :: "sys \<Rightarrow> string \<Rightarrow> int \<Rightarrow> real \<Rightarrow> sys \<times> wait_result" where
  "wait_for_container_poll st container_id timeout elapsed =
     (case map_of (containers st) container_id of
        None \<Rightarrow>
          (st, Raised (RuntimeError (''Container '' @ container_id @ '' was removed externally'')))
      | Some c \<Rightarrow>
          (case cstate c of
             Exited code \<Rightarrow> (st, Returned code)
           | Dead code \<Rightarrow> (st, Returned code)
           | _ \<Rightarrow>
               if elapsed > real_of_int timeout
               then (stop_container st container_id,
                     Raised (TimeoutError (''Container '' @ container_id @ '' exceeded '' @
                                            str_int timeout @ ''s timeout'')))
               else (st, Pending)))"

text \<open>
  What happens while a stage is supervised, in the order the event loop sees it: an
  iteration of the polling loop (with the elapsed time it reads), a callback handled by
  the HTTP endpoint, the container's process ending, the container being removed
  from outside.
\<close>

datatype tick = Poll real | Callback payload | Exits int | Removed

definition container_exits :: "sys \<Rightarrow> string \<Rightarrow> int \<Rightarrow> sys" where
  "container_exits st container_id code =
     st\<lparr>containers :=
          map (\<lambda>kc. if fst kc = container_id then (fst kc, (snd kc)\<lparr>cstate := Exited code\<rparr>) else kc)
            (containers st)\<rparr>"

definition container_removed :: "sys \<Rightarrow> string \<Rightarrow> sys" where
  "container_removed st container_id =
     st\<lparr>containers := filter (\<lambda>kc. fst kc \<noteq> container_id) (containers st)\<rparr>"

text \<open>
  The selection after \<open>asyncio.wait\<close>: the error waiter is looked at first, then the
  complete waiter; a waiter on an event is done as soon as the flag is set.
\<close>

definition decide_events :: "events \<Rightarrow> wait_result option" where
  "decide_events ev =
     (if error_event ev then
        Some (Raised (RuntimeError (''Agent error: '' @
                (case data_error ev of None \<Rightarrow> ''Agent reported error'' | Some m \<Rightarrow> m))))
      else if complete_event ev then Some (Returned 0)
      else None)"

text \<open>The waiters on the two events of a job, read from its bus.\<close>

definition fired :: "sys \<Rightarrow> string \<Rightarrow> wait_result option" where
  "fired st job_id =
     (case job_events st job_id of
        None \<Rightarrow> None
      | Some ev \<Rightarrow> decide_events ev)"

text \<open>
  The race of the three waiters along the ticks. An event that has fired decides the
  race before anything else is looked at; otherwise the next tick happens. The result
  carries the ticks that were not consumed: they happen after the race is decided.
  A list of ticks that ends before any waiter is done leaves the stage Pending.
\<close>

fun race :: "sys \<Rightarrow> string \<Rightarrow> string \<Rightarrow> int \<Rightarrow> tick list \<Rightarrow> sys \<times> wait_result \<times> tick list" where
  "race st job_id container_id timeout [] =
     (case fired st job_id of
        Some r \<Rightarrow> (st, r, [])
      | None \<Rightarrow> (st, Pending, []))"
| "race st job_id container_id timeout (tk # rest) =
     (case fired st job_id of
        Some r \<Rightarrow> (st, r, tk # rest)
      | None \<Rightarrow>
          (case tk of
             Poll elapsed \<Rightarrow>
               (case wait_for_container_poll st container_id timeout elapsed of
                  (st', Pending) \<Rightarrow> race st' job_id container_id timeout rest
                | (st', r) \<Rightarrow> (st', r, rest))
           | Callback data \<Rightarrow>
               race (fst (agent_callback st job_id data)) job_id container_id timeout rest
           | Exits code \<Rightarrow>
               race (container_exits st container_id code) job_id container_id timeout rest
           | Removed \<Rightarrow>
               race (container_removed st container_id) job_id container_id timeout rest))"

text \<open>
  \<open>_wait_for_container_with_events\<close>: creating the waiters reads
  \<open>self.job_events[job_id]\<close>, a KeyError when the job has no bus; then the race.
\<close>

definition wait_for_container_with_events ::
  "sys \<Rightarrow> string \<Rightarrow> string \<Rightarrow> int \<Rightarrow> tick list \<Rightarrow> sys \<times> wait_result \<times> tick list" where
  "wait_for_container_with_events st job_id container_id timeout ticks =
     (case job_events st job_id of
        None \<Rightarrow> (st, Raised (KeyError job_id), ticks)
      | Some ev \<Rightarrow> race st job_id container_id timeout ticks)"

text \<open>
  The ticks left over when the race was decided: the polling task has been cancelled, so
  polls do nothing; callbacks are still handled by the endpoint and the container goes
  its own way.
\<close>

fun late_events :: "sys \<Rightarrow> string \<Rightarrow> string \<Rightarrow> tick list \<Rightarrow> sys" where
  "late_events st job_id container_id [] = st"
| "late_events st job_id container_id (Poll elapsed # rest) =
     late_events st job_id container_id rest"
| "late_events st job_id container_id (Callback data # rest) =
     late_events (fst (agent_callback st job_id data)) job_id container_id rest"
| "late_events st job_id container_id (Exits code # rest) =
     late_events (container_exits st container_id code) job_id container_id rest"
| "late_events st job_id container_id (Removed # rest) =
     late_events (container_removed st container_id) job_id container_id rest"

text \<open>
  A stage as \<open>_execute_job\<close> runs it, for the Builder and for the Checker alike: start
  the sampler, wait with the default budget of 600 seconds, and let the late ticks
  happen before the next statement runs.
\<close>

definition supervise ::
  "sys \<Rightarrow> string \<Rightarrow> string \<Rightarrow> sample list \<Rightarrow> tick list \<Rightarrow> sys \<times> wait_result" where
  "supervise st job_id container_id samples ticks =
     (case wait_for_container_with_events
             (collect_telemetry st job_id container_id samples) job_id container_id 600 ticks of
        (st', r, rest) \<Rightarrow> (late_events st' job_id container_id rest, r))"

section \<open>Executing a job (\<open>_execute_job\<close>)\<close>

text \<open>
  What the environment decides during one execution: whether creating the volume
  raises (with the driver's text), whether each spawn raises or which container id it
  returns, what each sampler reads, and the ticks seen while each stage is supervised.
\<close>

record env =
  create_volume :: "string option"
  builder_spawn :: "string + string"
  builder_samples :: "sample list"
  builder_ticks :: "tick list"
  checker_spawn :: "string + string"
  checker_samples :: "sample list"
  checker_ticks :: "tick list"

definition create_workspace_volume :: "sys \<Rightarrow> string \<Rightarrow> string option \<Rightarrow> exn + sys" where
  "create_workspace_volume st job_id failure =
     (case failure of
        Some m \<Rightarrow> Inl (DriverError m)
      | None \<Rightarrow>
          Inr (if workspace_volume job_id \<in> set (volumes st) then st
               else st\<lparr>volumes := volumes st @ [workspace_volume job_id]\<rparr>))"

definition spawn_builder :: "sys \<Rightarrow> string \<Rightarrow> string + string \<Rightarrow> exn + sys \<times> string" where
  "spawn_builder st job_id outcome =
     (case outcome of
        Inl m \<Rightarrow> Inl (DriverError m)
      | Inr cid \<Rightarrow>
          Inr (st\<lparr>containers :=
                    containers st @
                      [(cid, \<lparr>cname = ''icarus_builder_'' @ job_id, cstate = Running\<rparr>)]\<rparr>,
               cid))"

definition spawn_checker :: "sys \<Rightarrow> string \<Rightarrow> string + string \<Rightarrow> exn + sys \<times> string" where
  "spawn_checker st job_id outcome =
     (case outcome of
        Inl m \<Rightarrow> Inl (DriverError m)
      | Inr cid \<Rightarrow>
          Inr (st\<lparr>containers :=
                    containers st @
                      [(cid, \<lparr>cname = ''icarus_checker_'' @ job_id, cstate = Running\<rparr>)]\<rparr>,
               cid))"

definition store_builder_container_id :: "sys \<Rightarrow> string \<Rightarrow> string \<Rightarrow> exn + sys" where
  "store_builder_container_id st job_id cid =
     (case jobs st job_id of
        None \<Rightarrow> Inl NoResultFound
      | Some job \<Rightarrow>
          Inr (st\<lparr>jobs := (jobs st)(job_id \<mapsto> job\<lparr>builder_container_id := Some cid\<rparr>)\<rparr>))"

definition store_checker_container_id :: "sys \<Rightarrow> string \<Rightarrow> string \<Rightarrow> exn + sys" where
  "store_checker_container_id st job_id cid =
     (case jobs st job_id of
        None \<Rightarrow> Inl NoResultFound
      | Some job \<Rightarrow>
          Inr (st\<lparr>jobs := (jobs st)(job_id \<mapsto> job\<lparr>checker_container_id := Some cid\<rparr>)\<rparr>))"

text \<open>
  How a block of \<open>_execute_job\<close> ends: it ran to its end or returned (Normal), it is
  still awaiting a stage (Blocked), or an exception left it (Raise).
\<close>

datatype flow = Normal | Blocked | Raise exn

text \<open>
  Steps 6 to 8 of the \<open>try\<close> block: the Checker stage. A non-zero exit of the Checker is
  logged and the job still goes to review. The Discord notification that follows is
  wrapped in its own \<open>try\<close> and writes nothing.
\<close>

definition checker_stage :: "sys \<Rightarrow> string \<Rightarrow> env \<Rightarrow> sys \<times> flow" where
  "checker_stage st job_id e =
     (case update_job_status st job_id CHECKING None of
        Inl x \<Rightarrow> (st, Raise x)
      | Inr st1 \<Rightarrow>
          (case spawn_checker st1 job_id (checker_spawn e) of
             Inl x \<Rightarrow> (st1, Raise x)
           | Inr (st2, cid) \<Rightarrow>
               (case store_checker_container_id st2 job_id cid of
                  Inl x \<Rightarrow> (st2, Raise x)
                | Inr st3 \<Rightarrow>
                    (case supervise st3 job_id cid (checker_samples e) (checker_ticks e) of
                       (st4, Pending) \<Rightarrow> (st4, Blocked)
                     | (st4, Raised x) \<Rightarrow> (st4, Raise x)
                     | (st4, Returned checker_exit_code) \<Rightarrow>
                         (case update_job_status st4 job_id AWAITING_APPROVAL None of
                            Inl x \<Rightarrow> (st4, Raise x)
                          | Inr st5 \<Rightarrow> (st5, Normal))))))"

text \<open>
  Steps 2 to 4: the Builder stage, and the test of its exit code. A non-zero exit
  marks the job failed and returns, so the Checker stage is not entered.
\<close>

definition builder_stage :: "sys \<Rightarrow> string \<Rightarrow> env \<Rightarrow> sys \<times> flow" where
  "builder_stage st job_id e =
     (case update_job_status st job_id BUILDING None of
        Inl x \<Rightarrow> (st, Raise x)
      | Inr st1 \<Rightarrow>
          (case spawn_builder st1 job_id (builder_spawn e) of
             Inl x \<Rightarrow> (st1, Raise x)
           | Inr (st2, cid) \<Rightarrow>
               (case store_builder_container_id st2 job_id cid of
                  Inl x \<Rightarrow> (st2, Raise x)
                | Inr st3 \<Rightarrow>
                    (case supervise st3 job_id cid (builder_samples e) (builder_ticks e) of
                       (st4, Pending) \<Rightarrow> (st4, Blocked)
                     | (st4, Raised x) \<Rightarrow> (st4, Raise x)
                     | (st4, Returned builder_exit_code) \<Rightarrow>
                         if builder_exit_code \<noteq> 0 then
                           (case update_job_status st4 job_id FAILED
                                   (Some (''Builder exited with non-zero code: '' @
                                            str_int builder_exit_code)) of
                              Inl x \<Rightarrow> (st4, Raise x)
                            | Inr st5 \<Rightarrow> (st5, Normal))
                         else checker_stage st4 job_id e))))"

text \<open>The \<open>try\<close> block: fetch the job, create the volume, then the two stages.\<close>

definition execute_body :: "sys \<Rightarrow> string \<Rightarrow> env \<Rightarrow> sys \<times> flow" where
  "execute_body st job_id e =
     (case jobs st job_id of
        None \<Rightarrow> (st, Raise NoResultFound)
      | Some job \<Rightarrow>
          (case create_workspace_volume st job_id (create_volume e) of
             Inl x \<Rightarrow> (st, Raise x)
           | Inr st1 \<Rightarrow> builder_stage st1 job_id e))"

text \<open>
  The \<open>finally\<close> block: the sampler is cancelled (no state of its own here), and the job
  leaves \<open>active_jobs\<close> and \<open>job_events\<close>. Nothing else is released.
\<close>

definition finally_block :: "sys \<Rightarrow> string \<Rightarrow> sys" where
  "finally_block st job_id =
     st\<lparr>active_jobs := removeAll job_id (active_jobs st),
        job_events := (job_events st)(job_id := None)\<rparr>"

text \<open>
  \<open>_execute_job\<close>: the bus is created with both flags clear; an exception of the body is
  turned into the status failed with \<open>str(e)\<close> as message (that update can raise in its
  turn when the job row is missing); the \<open>finally\<close> block runs unless the task is still
  awaiting a stage.
\<close>

definition execute_job :: "sys \<Rightarrow> string \<Rightarrow> env \<Rightarrow> sys \<times> flow" where
  "execute_job st job_id e =
     (let st0 = st\<lparr>job_events :=
                     (job_events st)(job_id \<mapsto>
                        \<lparr>error_event = False, complete_event = False, data_error = None\<rparr>)\<rparr>
      in case execute_body st0 job_id e of
           (st1, Blocked) \<Rightarrow> (st1, Blocked)
         | (st1, Normal) \<Rightarrow> (finally_block st1 job_id, Normal)
         | (st1, Raise x) \<Rightarrow>
             (case update_job_status st1 job_id FAILED (Some (str_exn x)) of
                Inl x' \<Rightarrow> (finally_block st1 job_id, Raise x')
              | Inr st2 \<Rightarrow> (finally_block st2 job_id, Normal)))"

section \<open>Host sentinel (sentinel/monitor.py)\<close>

datatype AlertLevel = GREEN | YELLOW | RED

record SystemMonitor =
  yellow_threshold :: real
  red_threshold :: real
  current_alert :: AlertLevel
  paused_containers :: "string list"
  docker_manager :: bool

record stats =
  cpu_percent :: real
  ram_percent :: real

text \<open>
  \<open>get_system_stats\<close>: the argument is what psutil reads, None when it raises. The
  exception is caught inside the method, which then returns zeros.
\<close>

definition get_system_stats :: "stats option \<Rightarrow> stats" where
  "get_system_stats reading =
     (case reading of
        Some s \<Rightarrow> s
      | None \<Rightarrow> \<lparr>cpu_percent = 0, ram_percent = 0\<rparr>)"

definition set_cstate :: "sys \<Rightarrow> string \<Rightarrow> container_state \<Rightarrow> sys" where
  "set_cstate st container_id s =
     st\<lparr>containers :=
          map (\<lambda>kc. if fst kc = container_id then (fst kc, (snd kc)\<lparr>cstate := s\<rparr>) else kc)
            (containers st)\<rparr>"

text \<open>
  \<open>_trigger_red_alert\<close>: the containers whose name contains \<open>icarus_\<close> are listed; each
  one that is running is paused and remembered.
\<close>

definition pause_one :: "SystemMonitor \<times> sys \<Rightarrow> string \<times> container \<Rightarrow> SystemMonitor \<times> sys" where
  "pause_one acc kc =
     (if cstate (snd kc) = Running
      then ((fst acc)\<lparr>paused_containers := paused_containers (fst acc) @ [fst kc]\<rparr>,
            set_cstate (snd acc) (fst kc) Paused)
      else acc)"

definition trigger_red_alert :: "SystemMonitor \<Rightarrow> sys \<Rightarrow> SystemMonitor \<times> sys" where
  "trigger_red_alert sm st =
     (if docker_manager sm
      then foldl pause_one (sm, st)
             (filter (\<lambda>kc. sublist ''icarus_'' (cname (snd kc))) (containers st))
      else (sm, st))"

text \<open>
  \<open>_clear_alerts\<close>: after a RED alert the remembered containers that are still paused
  are resumed, and the list is cleared.
\<close>

definition resume_one :: "sys \<Rightarrow> string \<Rightarrow> sys" where
  "resume_one st container_id =
     (case map_of (containers st) container_id of
        None \<Rightarrow> st
      | Some c \<Rightarrow> if cstate c = Paused then set_cstate st container_id Running else st)"

definition clear_alerts :: "SystemMonitor \<Rightarrow> sys \<Rightarrow> SystemMonitor \<times> sys" where
  "clear_alerts sm st =
     (if current_alert sm = RED \<and> paused_containers sm \<noteq> [] \<and> docker_manager sm
      then (sm\<lparr>paused_containers := []\<rparr>, foldl resume_one st (paused_containers sm))
      else (sm, st))"

text \<open>\<open>_check_resources\<close>: one poll of the sentinel.\<close>

definition check_resources :: "SystemMonitor \<Rightarrow> sys \<Rightarrow> stats option \<Rightarrow> SystemMonitor \<times> sys" where
  "check_resources sm st reading =
     (let stats = get_system_stats reading;
          max_usage = max (cpu_percent stats) (ram_percent stats)
      in if max_usage \<ge> red_threshold sm then
           (if current_alert sm \<noteq> RED
            then (case trigger_red_alert sm st of (sm', st') \<Rightarrow> (sm'\<lparr>current_alert := RED\<rparr>, st'))
            else (sm, st))
         else if max_usage \<ge> yellow_threshold sm then
           (if current_alert sm = GREEN
            then (sm\<lparr>current_alert := YELLOW\<rparr>, st)
            else (sm, st))
         else
           (if current_alert sm \<noteq> GREEN
            then (case clear_alerts sm st of (sm', st') \<Rightarrow> (sm'\<lparr>current_alert := GREEN\<rparr>, st'))
            else (sm, st)))"


section \<open>Admission loop (\<open>_process_queue\<close>)\<close>

text \<open>
  One iteration of the loop: the job id at the head of the queue is either put back
  at the end (with the seconds slept afterwards) or marked in flight and dispatched.
  With an empty queue the loop waits. The sentinel, when there is one, is asked for
  a fresh reading of the host; its alert level is not read.
\<close>

datatype admission = Waiting | Requeued nat | Dispatched string

definition process_queue ::
  "sys \<Rightarrow> SystemMonitor option \<Rightarrow> stats option \<Rightarrow> sys \<times> admission" where
  "process_queue st sentinel reading =
     (case queue st of
        [] \<Rightarrow> (st, Waiting)
      | job_id # rest \<Rightarrow>
          if length (active_jobs st) \<ge> max_concurrent st
          then (st\<lparr>queue := rest @ [job_id]\<rparr>, Requeued 5)
          else if sentinel \<noteq> None \<and>
                  max (cpu_percent (get_system_stats reading))
                      (ram_percent (get_system_stats reading)) \<ge> 80
          then (st\<lparr>queue := rest @ [job_id]\<rparr>, Requeued 10)
          else (st\<lparr>queue := rest, active_jobs := List.insert job_id (active_jobs st)\<rparr>,
                Dispatched job_id))"

section \<open>Notions used to state the properties\<close>

text \<open>The status of a job as the store has it, None for a job that is not there.\<close>

definition job_status :: "sys \<Rightarrow> string \<Rightarrow> JobStatus option" where
  "job_status st job_id = map_option status (jobs st job_id)"

text \<open>A sandbox is alive while its container exists and is running or paused.\<close>

definition alive :: "sys \<Rightarrow> string \<Rightarrow> bool" where
  "alive st container_id =
     (case map_of (containers st) container_id of
        None \<Rightarrow> False
      | Some k \<Rightarrow> cstate k = Running \<or> cstate k = Paused)"

text \<open>
  The edges of the state machine as the specification lists them, the edges that
  \<open>_execute_job\<close>, \<open>approve_job\<close> and \<open>reject_job\<close> take from the statuses they are
  meant for (the specification's edges and pending to failed), and a sequence of
  writes that follows a set of edges from a starting status.
\<close>

fun permitted_edge :: "JobStatus \<Rightarrow> JobStatus \<Rightarrow> bool" where
  "permitted_edge PENDING BUILDING = True"
| "permitted_edge BUILDING CHECKING = True"
| "permitted_edge CHECKING AWAITING_APPROVAL = True"
| "permitted_edge AWAITING_APPROVAL APPROVED = True"
| "permitted_edge APPROVED COMPLETED = True"
| "permitted_edge BUILDING FAILED = True"
| "permitted_edge CHECKING FAILED = True"
| "permitted_edge AWAITING_APPROVAL REJECTED = True"
| "permitted_edge _ _ = False"

definition execution_edge :: "JobStatus \<Rightarrow> JobStatus \<Rightarrow> bool" where
  "execution_edge a b \<longleftrightarrow> permitted_edge a b \<or> (a = PENDING \<and> b = FAILED)"

fun follows_edges :: "(JobStatus \<Rightarrow> JobStatus \<Rightarrow> bool) \<Rightarrow> JobStatus \<Rightarrow> JobStatus list \<Rightarrow> bool" where
  "follows_edges E s [] = True"
| "follows_edges E s (w # ws) = (E s w \<and> follows_edges E w ws)"

definition terminal :: "JobStatus \<Rightarrow> bool" where
  "terminal s \<longleftrightarrow> s = COMPLETED \<or> s = FAILED \<or> s = REJECTED"

text \<open>
  What supervising a container \<open>c\<close> leaves alone: every table and registry, which
  jobs have a bus (not the flags of a bus), and every container other than \<open>c\<close>.
\<close>

definition same_store :: "string \<Rightarrow> sys \<Rightarrow> sys \<Rightarrow> bool" where
  "same_store c st st' \<longleftrightarrow>
     jobs st' = jobs st \<and> status_log st' = status_log st \<and> telemetry st' = telemetry st \<and>
     audit_logs st' = audit_logs st \<and> volumes st' = volumes st \<and>
     active_jobs st' = active_jobs st \<and> queue st' = queue st \<and> clock st' = clock st \<and>
     max_concurrent st' = max_concurrent st \<and>
     dom (job_events st') = dom (job_events st) \<and>
     filter (\<lambda>kc. fst kc \<noteq> c) (containers st') = filter (\<lambda>kc. fst kc \<noteq> c) (containers st)"

text \<open>
  The states in which each stage starts to wait, and the state after a status update
  that found its job.
\<close>

definition fresh_events :: events where
  "fresh_events = \<lparr>error_event = False, complete_event = False, data_error = None\<rparr>"

definition builder_entry :: "sys \<Rightarrow> string \<Rightarrow> Job \<Rightarrow> string \<Rightarrow> sys" where
  "builder_entry st j job c =
     st\<lparr>job_events := (job_events st)(j \<mapsto> fresh_events),
        volumes := (if workspace_volume j \<in> set (volumes st) then volumes st
                    else volumes st @ [workspace_volume j]),
        jobs := (jobs st)(j \<mapsto> job\<lparr>status := BUILDING, builder_container_id := Some c\<rparr>),
        status_log := status_log st @ [(j, BUILDING)],
        containers := containers st @ [(c, \<lparr>cname = ''icarus_builder_'' @ j, cstate = Running\<rparr>)]\<rparr>"


definition mark :: "sys \<Rightarrow> string \<Rightarrow> JobStatus \<Rightarrow> string option \<Rightarrow> sys" where
  "mark st j s m = (case update_job_status st j s m of Inl x \<Rightarrow> st | Inr st' \<Rightarrow> st')"

section \<open>Example states and environments\<close>

definition job0 :: "JobStatus \<Rightarrow> Job" where
  "job0 s = \<lparr>task = ''write hello'', status = s, project_path = ''/p'', created_at = 0,
     completed_at = None, builder_container_id = None, checker_container_id = None,
     error_message = None\<rparr>"

definition sys0 :: "JobStatus \<Rightarrow> sys" where
  "sys0 s = \<lparr>jobs = [''J1'' \<mapsto> job0 s], telemetry = [], audit_logs = [], containers = [],
     volumes = [], active_jobs = [''J1''], job_events = Map.empty, queue = [],
     max_concurrent = 3, status_log = [], clock = 7\<rparr>"

definition no_payload :: payload where
  "no_payload = \<lparr>p_current_tool = None, p_cpu_usage = None, p_ram_usage_mb = None,
     p_audit_report = None, p_status = None, p_error = None\<rparr>"

definition error_payload :: "string \<Rightarrow> payload" where
  "error_payload m = no_payload\<lparr>p_status := Some ''error'', p_error := Some m\<rparr>"

definition completed_payload :: payload where
  "completed_payload = no_payload\<lparr>p_status := Some ''completed''\<rparr>"

definition env0 :: "tick list \<Rightarrow> tick list \<Rightarrow> env" where
  "env0 bt ct = \<lparr>create_volume = None, builder_spawn = Inr ''b1'', builder_samples = [],
     builder_ticks = bt, checker_spawn = Inr ''c1'', checker_samples = [], checker_ticks = ct\<rparr>"

definition env_volume_fails :: env where
  "env_volume_fails = (env0 [] [])\<lparr>create_volume := Some ''no space left on device''\<rparr>"

definition env_happy :: env where
  "env_happy = env0 [Exits 0, Poll 2] [Exits 0, Poll 2]"

definition tool_payload :: payload where
  "tool_payload = no_payload\<lparr>p_current_tool := Some ''pytest''\<rparr>"

definition audit_payload :: payload where
  "audit_payload = no_payload\<lparr>p_audit_report := Some ''{}'', p_status := Some ''completed''\<rparr>"

definition env_error_callback :: env where
  "env_error_callback = env0 [Poll 2, Callback (error_payload ''LLM unreachable'')] []"

definition env_exit_2 :: env where
  "env_exit_2 = env0 [Poll 2, Poll 4, Exits 2, Poll 6] []"

definition sentinel0 :: "real \<Rightarrow> AlertLevel \<Rightarrow> string list \<Rightarrow> SystemMonitor" where
  "sentinel0 yellow level paused =
     \<lparr>yellow_threshold = yellow, red_threshold = 90, current_alert = level,
      paused_containers = paused, docker_manager = True\<rparr>"

definition reading0 :: "real \<Rightarrow> real \<Rightarrow> stats" where
  "reading0 cpu ram = \<lparr>cpu_percent = cpu, ram_percent = ram\<rparr>"

definition sys_paused :: "container_state \<Rightarrow> sys" where
  "sys_paused s =
     (sys0 CHECKING)\<lparr>containers := [(''c1'', \<lparr>cname = ''icarus_checker_J1'', cstate = s\<rparr>)]\<rparr>"

definition sys_queued :: sys where
  "sys_queued = (sys0 PENDING)\<lparr>queue := [''J1''], active_jobs := []\<rparr>"







section \<open>The append-only tables and the frame of a stage\<close>

subsection \<open>Constructors\<close>

lemma store_telemetry_eq:
  "store_telemetry st j d =
     (case p_current_tool d of None \<Rightarrow> Inr st
      | Some tool \<Rightarrow> Inl (TypeError (CHR 0x27 # ''cpu_usage'' @ CHR 0x27 # '' is an invalid keyword argument for Telemetry'')))"
  by (simp add: store_telemetry_def Telemetry_def declarative_constructor_def Telemetry_columns_def
      split: option.splits)

lemma store_audit_eq:
  "store_audit st j d =
     (case p_audit_report d of None \<Rightarrow> Inr st
      | Some r \<Rightarrow> Inl (TypeError (CHR 0x27 # ''audit_report'' @ CHR 0x27 # '' is an invalid keyword argument for AuditLog'')))"
  by (simp add: store_audit_def AuditLog_def declarative_constructor_def AuditLog_columns_def
      split: option.splits)

lemma agent_callback_eq:
  "agent_callback st j d =
     (if p_current_tool d = None \<and> p_audit_report d = None
      then (signal_events st j d, HTTP_200 ''acknowledged'')
      else (st, HTTP_500 ''Failed to process callback''))"
  by (simp add: agent_callback_def store_telemetry_eq store_audit_eq split: option.splits)

lemma collect_telemetry_eq: "collect_telemetry st j c samples = st"
  by (cases samples)
     (simp_all add: Telemetry_def declarative_constructor_def Telemetry_columns_def Let_def
        split: option.splits)

subsection \<open>Frame\<close>

lemma same_store_refl [simp]: "same_store c st st"
  by (simp add: same_store_def)

lemma same_store_trans: "same_store c a b \<Longrightarrow> same_store c b d \<Longrightarrow> same_store c a d"
  by (simp add: same_store_def)

lemma filter_others_update:
  "filter (\<lambda>kc. fst kc \<noteq> c) (map (\<lambda>kc. if fst kc = c then (fst kc, f (snd kc)) else kc) xs) =
   filter (\<lambda>kc. fst kc \<noteq> c) xs"
  by (induction xs) auto

lemma filter_others_remove:
  "filter (\<lambda>kc. fst kc \<noteq> c) (filter (\<lambda>kc. fst kc \<noteq> c) xs) = filter (\<lambda>kc. fst kc \<noteq> c) xs"
  by simp

lemma same_store_stop_container [simp]: "same_store c st (stop_container st c)"
  by (simp add: stop_container_def same_store_def split: option.splits)

lemma same_store_container_exits [simp]: "same_store c st (container_exits st c code)"
  by (simp add: container_exits_def same_store_def filter_others_update)

lemma same_store_container_removed [simp]: "same_store c st (container_removed st c)"
  by (simp add: container_removed_def same_store_def)

lemma same_store_signal_events [simp]: "same_store c st (signal_events st j d)"
  by (auto simp: signal_events_def Let_def same_store_def split: option.splits)

lemma same_store_agent_callback [simp]: "same_store c st (fst (agent_callback st j d))"
  by (simp add: agent_callback_eq)

lemma same_store_poll: "wait_for_container_poll st c t el = (st', r) \<Longrightarrow> same_store c st st'"
  by (auto simp: wait_for_container_poll_def split: option.splits container_state.splits if_splits)

lemma same_store_race: "race st j c t ticks = (st', r, rest) \<Longrightarrow> same_store c st st'"
proof (induction ticks arbitrary: st)
  case Nil
  then show ?case by (auto split: option.splits)
next
  case (Cons tk ticks)
  show ?case
  proof (cases "fired st j")
    case (Some a)
    with Cons.prems show ?thesis by simp
  next
    case None
    show ?thesis
    proof (cases tk)
      case (Poll el)
      obtain s1 r1 where p: "wait_for_container_poll st c t el = (s1, r1)" by force
      have ss: "same_store c st s1" using same_store_poll[OF p] .
      show ?thesis
      proof (cases r1)
        case Pending
        then have "race s1 j c t ticks = (st', r, rest)" using Cons.prems None Poll p by simp
        from Cons.IH[OF this] ss show ?thesis by (rule same_store_trans[rotated])
      next
        case (Returned x)
        then show ?thesis using Cons.prems None Poll p ss by simp
      next
        case (Raised x)
        then show ?thesis using Cons.prems None Poll p ss by simp
      qed
    next
      case (Callback d)
      then have "race (fst (agent_callback st j d)) j c t ticks = (st', r, rest)"
        using Cons.prems None by simp
      from Cons.IH[OF this] show ?thesis
        using same_store_trans same_store_agent_callback by blast
    next
      case (Exits code)
      then have "race (container_exits st c code) j c t ticks = (st', r, rest)"
        using Cons.prems None by simp
      from Cons.IH[OF this] show ?thesis
        using same_store_trans same_store_container_exits by blast
    next
      case Removed
      then have "race (container_removed st c) j c t ticks = (st', r, rest)"
        using Cons.prems None by simp
      from Cons.IH[OF this] show ?thesis
        using same_store_trans same_store_container_removed by blast
    qed
  qed
qed

lemma same_store_late_events: "same_store c st (late_events st j c ticks)"
proof (induction ticks arbitrary: st)
  case Nil
  show ?case by simp
next
  case (Cons tk ticks)
  show ?case
  proof (cases tk)
    case (Poll x1)
    then show ?thesis using Cons.IH by simp
  next
    case (Callback d)
    then show ?thesis
      using Cons.IH[of "fst (agent_callback st j d)"]
        same_store_trans[OF same_store_agent_callback] by simp
  next
    case (Exits code)
    then show ?thesis
      using Cons.IH[of "container_exits st c code"]
        same_store_trans[OF same_store_container_exits] by simp
  next
    case Removed
    then show ?thesis
      using Cons.IH[of "container_removed st c"]
        same_store_trans[OF same_store_container_removed] by simp
  qed
qed

lemma same_store_supervise: "supervise st j c samples ticks = (st', r) \<Longrightarrow> same_store c st st'"
  by (auto simp: supervise_def collect_telemetry_eq wait_for_container_with_events_def
      same_store_late_events
      split: option.splits prod.splits
      intro: same_store_trans[OF same_store_race same_store_late_events])

section \<open>Status writes of each stage\<close>

lemma checker_stage_trace:
  assumes "jobs st j = Some job"
  shows "case checker_stage st j e of (st', fl) \<Rightarrow>
     (status_log st' = status_log st @ [(j, CHECKING)] \<and> job_status st' j = Some CHECKING \<and> fl \<noteq> Normal)
    \<or> (status_log st' = status_log st @ [(j, CHECKING), (j, AWAITING_APPROVAL)]
        \<and> job_status st' j = Some AWAITING_APPROVAL \<and> fl = Normal)"
  using assms
  by (auto simp: checker_stage_def update_job_status_def spawn_checker_def
      store_checker_container_id_def Let_def job_status_def same_store_def
      split: sum.splits option.splits prod.splits wait_result.splits
      dest!: same_store_supervise)

lemma builder_stage_trace:
  assumes "jobs st j = Some job"
  shows "case builder_stage st j e of (st', fl) \<Rightarrow>
     (status_log st' = status_log st @ [(j, BUILDING)] \<and> job_status st' j = Some BUILDING \<and> fl \<noteq> Normal)
    \<or> (status_log st' = status_log st @ [(j, BUILDING), (j, FAILED)] \<and> job_status st' j = Some FAILED \<and> fl = Normal)
    \<or> (status_log st' = status_log st @ [(j, BUILDING), (j, CHECKING)] \<and> job_status st' j = Some CHECKING \<and> fl \<noteq> Normal)
    \<or> (status_log st' = status_log st @ [(j, BUILDING), (j, CHECKING), (j, AWAITING_APPROVAL)]
        \<and> job_status st' j = Some AWAITING_APPROVAL \<and> fl = Normal)"
proof -
  obtain st1 where u: "update_job_status st j BUILDING None = Inr st1"
    and l1: "status_log st1 = status_log st @ [(j, BUILDING)]"
    and s1: "job_status st1 j = Some BUILDING"
    using assms by (auto simp: update_job_status_def Let_def job_status_def)
  show ?thesis
  proof (cases "spawn_builder st1 j (builder_spawn e)")
    case (Inl x)
    then show ?thesis using u l1 s1 by (simp add: builder_stage_def)
  next
    case (Inr p)
    obtain st2 cid where p: "p = (st2, cid)" by (cases p)
    have st2: "status_log st2 = status_log st1" "jobs st2 = jobs st1"
      using Inr p by (auto simp: spawn_builder_def split: sum.splits)
    obtain job1 where j1: "jobs st1 j = Some job1" "status job1 = BUILDING"
      using s1 by (auto simp: job_status_def)
    obtain st3 where 3: "store_builder_container_id st2 j cid = Inr st3"
      and l3: "status_log st3 = status_log st1" and s3: "job_status st3 j = Some BUILDING"
      using j1 st2 by (auto simp: store_builder_container_id_def job_status_def)
    obtain st4 r where 4: "supervise st3 j cid (builder_samples e) (builder_ticks e) = (st4, r)"
      by force
    have ss: "same_store cid st3 st4" using same_store_supervise[OF 4] .
    have l4: "status_log st4 = status_log st @ [(j, BUILDING)]" and s4: "job_status st4 j = Some BUILDING"
      using ss l3 s3 l1 by (simp_all add: same_store_def job_status_def)
    obtain job4 where j4: "jobs st4 j = Some job4" using s4 by (auto simp: job_status_def)
    show ?thesis
    proof (cases r)
      case Pending
      then show ?thesis using u Inr p 3 4 l4 s4 by (simp add: builder_stage_def)
    next
      case (Raised x)
      then show ?thesis using u Inr p 3 4 l4 s4 by (simp add: builder_stage_def)
    next
      case (Returned code)
      show ?thesis
      proof (cases "code = 0")
        case True
        have "builder_stage st j e = checker_stage st4 j e"
          using u Inr p 3 4 Returned True by (simp add: builder_stage_def)
        then show ?thesis using checker_stage_trace[OF j4, of e] l4
          by (auto split: prod.splits)
      next
        case False
        then show ?thesis using u Inr p 3 4 Returned l4 j4
          by (auto simp: builder_stage_def update_job_status_def Let_def job_status_def)
      qed
    qed
  qed
qed

section \<open>The race along the ticks\<close>




lemma race_quiet_polls:
  assumes "fired st j = None" "map_of (containers st) c = Some cont"
    "cstate cont = Running \<or> cstate cont = Paused" "\<forall>x\<in>set ts. x \<le> real_of_int t"
  shows "race st j c t (map Poll ts @ rest) = race st j c t rest"
  using assms(4)
proof (induction ts)
  case Nil
  show ?case by simp
next
  case (Cons x ts)
  have "wait_for_container_poll st c t x = (st, Pending)"
    using assms(2,3) Cons.prems by (auto simp: wait_for_container_poll_def)
  then show ?case using Cons assms(1) by simp
qed


lemma race_poll_exited:
  assumes "fired st j = None" "map_of (containers st) c = Some cont"
    "cstate cont = Exited code \<or> cstate cont = Dead code"
  shows "race st j c t (Poll el # rest) = (st, Returned code, rest)"
  using assms by (auto simp: wait_for_container_poll_def)

lemma race_poll_removed:
  assumes "fired st j = None" "map_of (containers st) c = None"
  shows "race st j c t (Poll el # rest) =
     (st, Raised (RuntimeError (''Container '' @ c @ '' was removed externally'')), rest)"
  using assms by (auto simp: wait_for_container_poll_def)



section \<open>Unfolding an execution\<close>

lemma update_job_status_mark:
  "jobs st j = Some job \<Longrightarrow> update_job_status st j s m = Inr (mark st j s m)"
  by (simp add: mark_def update_job_status_def Let_def)

lemma mark_fields [simp]:
  "containers (mark st j s m) = containers st" "volumes (mark st j s m) = volumes st"
  "job_events (mark st j s m) = job_events st" "telemetry (mark st j s m) = telemetry st"
  "audit_logs (mark st j s m) = audit_logs st" "active_jobs (mark st j s m) = active_jobs st"
  "queue (mark st j s m) = queue st" "clock (mark st j s m) = clock st"
  by (simp_all add: mark_def update_job_status_def Let_def split: option.splits)

lemma mark_status:
  "jobs st j = Some job \<Longrightarrow> job_status (mark st j s m) j = Some s"
  by (auto simp: mark_def update_job_status_def Let_def job_status_def split: option.splits)

lemma mark_log:
  "jobs st j = Some job \<Longrightarrow> status_log (mark st j s m) = status_log st @ [(j, s)]"
  by (simp add: mark_def update_job_status_def Let_def)

lemma mark_error_message:
  "jobs st j = Some job \<Longrightarrow> m \<noteq> [] \<Longrightarrow>
   map_option error_message (jobs (mark st j s (Some m)) j) = Some (Some m)"
  by (auto simp: mark_def update_job_status_def Let_def)

lemma mark_container_ids:
  "jobs st j = Some job \<Longrightarrow>
   map_option checker_container_id (jobs (mark st j s m) j) = Some (checker_container_id job) \<and>
   map_option builder_container_id (jobs (mark st j s m) j) = Some (builder_container_id job)"
  by (simp add: mark_def update_job_status_def Let_def split: option.splits)

lemma finally_block_fields [simp]:
  "containers (finally_block st j) = containers st" "volumes (finally_block st j) = volumes st"
  "jobs (finally_block st j) = jobs st" "status_log (finally_block st j) = status_log st"
  "telemetry (finally_block st j) = telemetry st" "audit_logs (finally_block st j) = audit_logs st"
  "job_events (finally_block st j) j = None"
  by (simp_all add: finally_block_def)

lemma job_status_finally [simp]: "job_status (finally_block st j) k = job_status st k"
  by (simp add: job_status_def)



lemma checker_stage_job:
  assumes "jobs st j = Some job" "checker_stage st j e = (st', fl)"
  shows "\<exists>job'. jobs st' j = Some job'"
  using checker_stage_trace[OF assms(1), of e] assms(2) by (auto simp: job_status_def)

lemma execute_job_unfold:
  assumes "jobs st j = Some job" "create_volume e = None" "builder_spawn e = Inr c"
    and "supervise (builder_entry st j job c) j c (builder_samples e) (builder_ticks e) = (st', r)"
  shows "execute_job st j e =
     (case r of
        Pending \<Rightarrow> (st', Blocked)
      | Raised x \<Rightarrow> (finally_block (mark st' j FAILED (Some (str_exn x))) j, Normal)
      | Returned code \<Rightarrow>
          if code \<noteq> 0
          then (finally_block
                  (mark st' j FAILED (Some (''Builder exited with non-zero code: '' @ str_int code))) j,
                Normal)
          else (case checker_stage st' j e of
                  (st2, Blocked) \<Rightarrow> (st2, Blocked)
                | (st2, Normal) \<Rightarrow> (finally_block st2 j, Normal)
                | (st2, Raise x) \<Rightarrow>
                    (finally_block (mark st2 j FAILED (Some (str_exn x))) j, Normal)))"
proof -
  let ?st0 = "st\<lparr>job_events := (job_events st)(j \<mapsto>
                  \<lparr>error_event = False, complete_event = False, data_error = None\<rparr>)\<rparr>"
  obtain st1 where v: "create_workspace_volume ?st0 j (create_volume e) = Inr st1"
    and st1: "st1 = ?st0\<lparr>volumes := (if workspace_volume j \<in> set (volumes st) then volumes st
                    else volumes st @ [workspace_volume j])\<rparr>"
    using assms(2) by (simp add: create_workspace_volume_def)
  have j1: "jobs st1 j = Some job" using st1 assms(1) by simp
  have u: "update_job_status st1 j BUILDING None = Inr (mark st1 j BUILDING None)"
    using j1 by (rule update_job_status_mark)
  define st2 where "st2 = (mark st1 j BUILDING None)\<lparr>containers := containers (mark st1 j BUILDING None) @
           [(c, \<lparr>cname = ''icarus_builder_'' @ j, cstate = Running\<rparr>)]\<rparr>"
  have sp: "spawn_builder (mark st1 j BUILDING None) j (builder_spawn e) = Inr (st2, c)"
    using assms(3) by (simp add: spawn_builder_def st2_def)
  have stc: "store_builder_container_id st2 j c = Inr (builder_entry st j job c)"
    using assms(1) st1
    by (simp add: store_builder_container_id_def st2_def builder_entry_def fresh_events_def
        mark_def update_job_status_def Let_def)
  obtain job' where j': "jobs st' j = Some job'"
    using same_store_supervise[OF assms(4)] by (simp add: same_store_def builder_entry_def)
  have b: "builder_stage st1 j e =
     (case r of
        Pending \<Rightarrow> (st', Blocked)
      | Raised x \<Rightarrow> (st', Raise x)
      | Returned code \<Rightarrow>
          if code \<noteq> 0
          then (mark st' j FAILED (Some (''Builder exited with non-zero code: '' @ str_int code)),
                Normal)
          else checker_stage st' j e)"
    using j'
    by (simp add: builder_stage_def u sp stc assms(4) update_job_status_mark
        split: wait_result.splits)
  have body: "execute_body ?st0 j e = builder_stage st1 j e"
    using assms(1) v by (simp add: execute_body_def)
  show ?thesis
  proof (cases r)
    case Pending
    then show ?thesis using body b by (simp add: execute_job_def Let_def)
  next
    case (Raised x)
    then show ?thesis using body b j' by (simp add: execute_job_def Let_def update_job_status_mark)
  next
    case (Returned code)
    show ?thesis
    proof (cases "code = 0")
      case False
      then show ?thesis using body b Returned by (simp add: execute_job_def Let_def)
    next
      case True
      obtain st2 fl where c: "checker_stage st' j e = (st2, fl)" by force
      obtain job2 where j2: "jobs st2 j = Some job2" using checker_stage_job[OF j' c] by blast
      show ?thesis using body b Returned True c j2
        by (cases fl) (simp_all add: execute_job_def Let_def update_job_status_mark)
    qed
  qed
qed

section \<open>Evaluating the model on concrete inputs\<close>

lemmas str_defs = str_int_def str_nat.simps digit_char_def

lemmas model_defs = execute_job_def execute_body_def builder_stage_def checker_stage_def
  supervise_def wait_for_container_with_events_def fired_def decide_events_def
  wait_for_container_poll_def container_exits_def container_removed_def
  update_job_status_def create_workspace_volume_def spawn_builder_def spawn_checker_def
  store_builder_container_id_def store_checker_container_id_def finally_block_def
  stop_container_def workspace_volume_def signal_events_def
  collect_telemetry_eq agent_callback_eq job_status_def Let_def
  approve_job_def reject_job_def approve_endpoint_def cleanup_resources_def
  stop_if_recorded_def cleanup_volume_def alive_def
  sys0_def job0_def env0_def no_payload_def error_payload_def completed_payload_def

section \<open>Approval and rejection\<close>

lemma cleanup_resources_mark:
  "jobs st j = Some job \<Longrightarrow>
     \<exists>st'. cleanup_resources st j = Inr st' \<and> jobs st' = jobs st \<and> status_log st' = status_log st"
  by (simp add: cleanup_resources_def Let_def stop_if_recorded_def stop_container_def
      cleanup_volume_def split: option.splits)

lemma approve_job_result:
  assumes "jobs st j = Some job"
  shows "snd (approve_job st j) = None \<and> job_status (fst (approve_job st j)) j = Some COMPLETED \<and>
     status_log (fst (approve_job st j)) = status_log st @ [(j, APPROVED), (j, COMPLETED)]"
proof -
  let ?s1 = "mark st j APPROVED None"
  have 1: "update_job_status st j APPROVED None = Inr ?s1"
    using assms by (rule update_job_status_mark)
  obtain job1 where j1: "jobs ?s1 j = Some job1"
    using mark_status[OF assms, of APPROVED None] by (auto simp: job_status_def)
  obtain s2 where 2: "cleanup_resources ?s1 j = Inr s2" and j2: "jobs s2 = jobs ?s1"
    and l2: "status_log s2 = status_log ?s1"
    using cleanup_resources_mark[OF j1] by blast
  have j2': "jobs s2 j = Some job1" using j1 j2 by simp
  have 3: "update_job_status s2 j COMPLETED None = Inr (mark s2 j COMPLETED None)"
    using j2' by (rule update_job_status_mark)
  have "approve_job st j = (mark s2 j COMPLETED None, None)"
    using 1 2 3 by (simp add: approve_job_def)
  then show ?thesis
    using mark_status[OF j2'] mark_log[OF j2'] l2 mark_log[OF assms] by simp
qed

lemma reject_job_result:
  assumes "jobs st j = Some job"
  shows "snd (reject_job st j cm) = None \<and> job_status (fst (reject_job st j cm)) j = Some REJECTED \<and>
     status_log (fst (reject_job st j cm)) = status_log st @ [(j, REJECTED)]"
proof -
  let ?s1 = "mark st j REJECTED cm"
  have 1: "update_job_status st j REJECTED cm = Inr ?s1"
    using assms by (rule update_job_status_mark)
  obtain job1 where j1: "jobs ?s1 j = Some job1" and s1: "job_status ?s1 j = Some REJECTED"
    using mark_status[OF assms, of REJECTED cm] by (auto simp: job_status_def)
  obtain s2 where 2: "cleanup_resources ?s1 j = Inr s2" and j2: "jobs s2 = jobs ?s1"
    and l2: "status_log s2 = status_log ?s1"
    using cleanup_resources_mark[OF j1] by blast
  have "reject_job st j cm = (s2, None)"
    using 1 2 by (simp add: reject_job_def)
  then show ?thesis
    using s1 j2 l2 mark_log[OF assms] by (simp add: job_status_def)
qed




section \<open>Status writes\<close>

lemma execute_job_writes:
  assumes "jobs st j = Some job"
  shows "\<exists>ws. ws \<in> set [[FAILED], [BUILDING], [BUILDING, FAILED], [BUILDING, CHECKING],
                     [BUILDING, CHECKING, FAILED], [BUILDING, CHECKING, AWAITING_APPROVAL]] \<and>
     status_log (fst (execute_job st j e)) = status_log st @ map (Pair j) ws \<and>
     job_status (fst (execute_job st j e)) j = Some (last ws)"
proof -
  let ?st0 = "st\<lparr>job_events := (job_events st)(j \<mapsto>
                  \<lparr>error_event = False, complete_event = False, data_error = None\<rparr>)\<rparr>"
  have j0: "jobs ?st0 j = Some job" and l0: "status_log ?st0 = status_log st"
    using assms by simp_all
  show ?thesis
  proof (cases "create_volume e")
    case (Some m)
    have "execute_job st j e =
        (finally_block (mark ?st0 j FAILED (Some (str_exn (DriverError m)))) j, Normal)"
      using assms Some
      by (simp add: execute_job_def execute_body_def create_workspace_volume_def Let_def
          update_job_status_mark[OF j0])
    then show ?thesis
      using mark_log[OF j0] mark_status[OF j0] by (intro exI[of _ "[FAILED]"]) simp
  next
    case None
    define st1 where "st1 = ?st0\<lparr>volumes := (if workspace_volume j \<in> set (volumes st)
        then volumes st else volumes st @ [workspace_volume j])\<rparr>"
    have v: "create_workspace_volume ?st0 j (create_volume e) = Inr st1"
      using None by (simp add: create_workspace_volume_def st1_def)
    have j1: "jobs st1 j = Some job" and l1: "status_log st1 = status_log st"
      using assms by (simp_all add: st1_def)
    obtain st2 fl where b: "builder_stage st1 j e = (st2, fl)" by force
    have body: "execute_body ?st0 j e = (st2, fl)"
      using assms v b by (simp add: execute_body_def)
    have tr: "(status_log st2 = status_log st @ [(j, BUILDING)] \<and> job_status st2 j = Some BUILDING \<and> fl \<noteq> Normal)
      \<or> (status_log st2 = status_log st @ [(j, BUILDING), (j, FAILED)] \<and> job_status st2 j = Some FAILED \<and> fl = Normal)
      \<or> (status_log st2 = status_log st @ [(j, BUILDING), (j, CHECKING)] \<and> job_status st2 j = Some CHECKING \<and> fl \<noteq> Normal)
      \<or> (status_log st2 = status_log st @ [(j, BUILDING), (j, CHECKING), (j, AWAITING_APPROVAL)]
          \<and> job_status st2 j = Some AWAITING_APPROVAL \<and> fl = Normal)"
      using builder_stage_trace[OF j1, of e] b l1 by simp
    then obtain job2 where j2: "jobs st2 j = Some job2" by (auto simp: job_status_def)
    show ?thesis
    proof (cases fl)
      case Normal
      then have ex: "execute_job st j e = (finally_block st2 j, Normal)"
        using body by (simp add: execute_job_def Let_def)
      from tr Normal consider
        "status_log st2 = status_log st @ [(j, BUILDING), (j, FAILED)] \<and> job_status st2 j = Some FAILED"
        | "status_log st2 = status_log st @ [(j, BUILDING), (j, CHECKING), (j, AWAITING_APPROVAL)]
            \<and> job_status st2 j = Some AWAITING_APPROVAL" by auto
      then show ?thesis
      proof cases
        case 1
        then show ?thesis using ex by (intro exI[of _ "[BUILDING, FAILED]"]) simp
      next
        case 2
        then show ?thesis using ex
          by (intro exI[of _ "[BUILDING, CHECKING, AWAITING_APPROVAL]"]) simp
      qed
    next
      case Blocked
      then have ex: "execute_job st j e = (st2, Blocked)"
        using body by (simp add: execute_job_def Let_def)
      from tr Blocked consider
        "status_log st2 = status_log st @ [(j, BUILDING)] \<and> job_status st2 j = Some BUILDING"
        | "status_log st2 = status_log st @ [(j, BUILDING), (j, CHECKING)]
            \<and> job_status st2 j = Some CHECKING" by auto
      then show ?thesis
      proof cases
        case 1
        then show ?thesis using ex by (intro exI[of _ "[BUILDING]"]) simp
      next
        case 2
        then show ?thesis using ex by (intro exI[of _ "[BUILDING, CHECKING]"]) simp
      qed
    next
      case (Raise x)
      then have ex: "execute_job st j e =
          (finally_block (mark st2 j FAILED (Some (str_exn x))) j, Normal)"
        using body by (simp add: execute_job_def Let_def update_job_status_mark[OF j2])
      from tr Raise consider
        "status_log st2 = status_log st @ [(j, BUILDING)]"
        | "status_log st2 = status_log st @ [(j, BUILDING), (j, CHECKING)]" by auto
      then show ?thesis
      proof cases
        case 1
        then show ?thesis using ex mark_log[OF j2] mark_status[OF j2]
          by (intro exI[of _ "[BUILDING, FAILED]"]) simp
      next
        case 2
        then show ?thesis using ex mark_log[OF j2] mark_status[OF j2]
          by (intro exI[of _ "[BUILDING, CHECKING, FAILED]"]) simp
      qed
    qed
  qed
qed

text \<open>
  Claim C3, as amended. The status writes that \<open>_execute_job\<close> makes for a job it
  finds pending follow the edges pending, building, checking, awaiting approval, with
  failed reachable from pending (the volume cannot be created), building and checking;
  the job's status in the store is the last status written, and no edge leaves a
  terminal status, so the execution writes nothing after failed. \<open>approve_job\<close> on a
  job awaiting approval writes approved then completed, \<open>reject_job\<close> writes rejected.
  The update itself checks nothing: see the counterexample for what approve does to a
  job in another status.
\<close>

theorem status_writes_of_execution_follow_edges:
  "(\<forall>job. jobs st j = Some job \<and> status job = PENDING \<longrightarrow>
      (\<exists>ws. status_log (fst (execute_job st j e)) = status_log st @ map (Pair j) ws \<and>
            follows_edges execution_edge PENDING ws \<and>
            job_status (fst (execute_job st j e)) j = Some (last (PENDING # ws)))) \<and>
   (job_status st j = Some AWAITING_APPROVAL \<longrightarrow>
      status_log (fst (approve_job st j)) = status_log st @ [(j, APPROVED), (j, COMPLETED)] \<and>
      job_status (fst (approve_job st j)) j = Some COMPLETED \<and>
      follows_edges permitted_edge AWAITING_APPROVAL [APPROVED, COMPLETED] \<and>
      status_log (fst (reject_job st j cm)) = status_log st @ [(j, REJECTED)] \<and>
      job_status (fst (reject_job st j cm)) j = Some REJECTED \<and>
      follows_edges permitted_edge AWAITING_APPROVAL [REJECTED]) \<and>
   (terminal s \<longrightarrow> \<not> execution_edge s s')"
proof (intro conjI allI impI)
  fix job
  assume a: "jobs st j = Some job \<and> status job = PENDING"
  then have js: "jobs st j = Some job" by simp
  obtain ws where ws: "ws \<in> set [[FAILED], [BUILDING], [BUILDING, FAILED], [BUILDING, CHECKING],
                     [BUILDING, CHECKING, FAILED], [BUILDING, CHECKING, AWAITING_APPROVAL]]"
    and l: "status_log (fst (execute_job st j e)) = status_log st @ map (Pair j) ws"
    and s: "job_status (fst (execute_job st j e)) j = Some (last ws)"
    using execute_job_writes[OF js, of e] by blast
  have f: "follows_edges execution_edge PENDING ws"
    using ws by (auto simp: execution_edge_def)
  have "last (PENDING # ws) = last ws" using ws by auto
  then show "\<exists>ws. status_log (fst (execute_job st j e)) = status_log st @ map (Pair j) ws \<and>
            follows_edges execution_edge PENDING ws \<and>
            job_status (fst (execute_job st j e)) j = Some (last (PENDING # ws))"
    using l s f by (intro exI[of _ ws]) simp
next
  assume "job_status st j = Some AWAITING_APPROVAL"
  then obtain job where js: "jobs st j = Some job" by (auto simp: job_status_def)
  show "status_log (fst (approve_job st j)) = status_log st @ [(j, APPROVED), (j, COMPLETED)]"
    using approve_job_result[OF js] by simp
  show "job_status (fst (approve_job st j)) j = Some COMPLETED"
    using approve_job_result[OF js] by simp
  show "status_log (fst (reject_job st j cm)) = status_log st @ [(j, REJECTED)]"
    using reject_job_result[OF js] by simp
  show "job_status (fst (reject_job st j cm)) j = Some REJECTED"
    using reject_job_result[OF js] by simp
  show "follows_edges permitted_edge AWAITING_APPROVAL [APPROVED, COMPLETED]" by simp
  show "follows_edges permitted_edge AWAITING_APPROVAL [REJECTED]" by simp
next
  assume "terminal s"
  then show "\<not> execution_edge s s'"
    by (cases s'; auto simp: terminal_def execution_edge_def)
qed

theorem status_writes_of_execution_follow_edges_witness:
  "jobs (sys0 PENDING) ''J1'' = Some (job0 PENDING) \<and> status (job0 PENDING) = PENDING \<and>
   status_log (fst (execute_job (sys0 PENDING) ''J1'' env_happy)) =
     [(''J1'', BUILDING), (''J1'', CHECKING), (''J1'', AWAITING_APPROVAL)] \<and>
   (\<exists>ws. status_log (fst (execute_job (sys0 PENDING) ''J1'' env_happy)) =
            status_log (sys0 PENDING) @ map (Pair ''J1'') ws \<and>
         follows_edges execution_edge PENDING ws) \<and>
   job_status (sys0 AWAITING_APPROVAL) ''J1'' = Some AWAITING_APPROVAL \<and>
   status_log (fst (approve_job (sys0 AWAITING_APPROVAL) ''J1'')) =
     [(''J1'', APPROVED), (''J1'', COMPLETED)] \<and>
   terminal FAILED \<and> \<not> execution_edge FAILED APPROVED"
proof -
  have a: "jobs (sys0 PENDING) ''J1'' = Some (job0 PENDING) \<and> status (job0 PENDING) = PENDING"
    by (simp add: sys0_def job0_def)
  have b: "job_status (sys0 AWAITING_APPROVAL) ''J1'' = Some AWAITING_APPROVAL"
    by (simp add: sys0_def job0_def job_status_def)
  have c: "status_log (fst (execute_job (sys0 PENDING) ''J1'' env_happy)) =
     [(''J1'', BUILDING), (''J1'', CHECKING), (''J1'', AWAITING_APPROVAL)]"
    by (simp add: model_defs env_happy_def)
  have d: "status_log (sys0 AWAITING_APPROVAL) = []" by (simp add: sys0_def)
  have t: "terminal FAILED" by (simp add: terminal_def)
  note th = status_writes_of_execution_follow_edges
      [where st = "sys0 PENDING" and j = "''J1''" and e = env_happy and s = FAILED
         and s' = APPROVED]
  note th2 = status_writes_of_execution_follow_edges
      [where st = "sys0 AWAITING_APPROVAL" and j = "''J1''" and cm = None]
  from th a have e: "\<exists>ws. status_log (fst (execute_job (sys0 PENDING) ''J1'' env_happy)) =
            status_log (sys0 PENDING) @ map (Pair ''J1'') ws \<and>
         follows_edges execution_edge PENDING ws" by blast
  from th2 b d have f: "status_log (fst (approve_job (sys0 AWAITING_APPROVAL) ''J1'')) =
     [(''J1'', APPROVED), (''J1'', COMPLETED)]" by simp
  from th t have g: "\<not> execution_edge FAILED APPROVED" by blast
  show ?thesis using a b c e f t g by blast
qed

text \<open>
  Claim C3 as stated fails twice. Approving a failed job (the endpoint accepts it)
  writes approved and completed over the terminal status failed, and failed to
  approved is not a permitted edge. An execution whose volume cannot be created
  writes failed directly over pending, which is not a permitted edge either.
\<close>

theorem status_overwritten_counterexample:
  "job_status (sys0 FAILED) ''J1'' = Some FAILED \<and> terminal FAILED \<and>
   status_log (fst (approve_job (sys0 FAILED) ''J1'')) = [(''J1'', APPROVED), (''J1'', COMPLETED)] \<and>
   job_status (fst (approve_job (sys0 FAILED) ''J1'')) ''J1'' = Some COMPLETED \<and>
   \<not> permitted_edge FAILED APPROVED \<and>
   job_status (sys0 PENDING) ''J1'' = Some PENDING \<and>
   status_log (fst (execute_job (sys0 PENDING) ''J1'' env_volume_fails)) = [(''J1'', FAILED)] \<and>
   \<not> permitted_edge PENDING FAILED"
  by (simp add: model_defs env_volume_fails_def terminal_def)

section \<open>Telemetry and audit rows\<close>

lemma checker_stage_tables:
  "checker_stage st j e = (st', fl) \<Longrightarrow>
     telemetry st' = telemetry st \<and> audit_logs st' = audit_logs st"
  by (auto simp: checker_stage_def update_job_status_def spawn_checker_def
      store_checker_container_id_def Let_def same_store_def
      split: sum.splits option.splits prod.splits wait_result.splits
      dest!: same_store_supervise)

lemma builder_stage_tables:
  "builder_stage st j e = (st', fl) \<Longrightarrow>
     telemetry st' = telemetry st \<and> audit_logs st' = audit_logs st"
  by (auto simp: builder_stage_def update_job_status_def spawn_builder_def
      store_builder_container_id_def Let_def same_store_def
      split: sum.splits option.splits prod.splits wait_result.splits if_splits
      dest!: same_store_supervise checker_stage_tables)

lemma execute_job_tables:
  "telemetry (fst (execute_job st j e)) = telemetry st \<and>
   audit_logs (fst (execute_job st j e)) = audit_logs st"
  by (auto simp: execute_job_def execute_body_def create_workspace_volume_def
      update_job_status_def finally_block_def Let_def
      split: sum.splits option.splits prod.splits flow.splits
      dest!: builder_stage_tables)

text \<open>
  Claim C5. The keyword arguments \<open>cpu_usage\<close> and \<open>ram_usage_mb\<close> are not columns of
  Telemetry (its columns are \<open>cpu_percent\<close> and \<open>ram_mb\<close>) and \<open>audit_report\<close> is not a
  column of AuditLog (its column is \<open>report\<close>), so each of the three constructions in
  the code (sampler, callback telemetry, callback audit) raises TypeError. Hence the
  sampler leaves the state as it is, a callback that carries \<open>current_tool\<close> or
  \<open>audit_report\<close> is answered 500 with the state unchanged, and neither a callback nor a
  whole execution of a job adds a row to either table.
\<close>

theorem no_telemetry_or_audit_row_is_persisted:
  "''cpu_usage'' \<notin> set Telemetry_columns \<and> ''ram_usage_mb'' \<notin> set Telemetry_columns \<and>
   ''cpu_percent'' \<in> set Telemetry_columns \<and> ''ram_mb'' \<in> set Telemetry_columns \<and>
   ''audit_report'' \<notin> set AuditLog_columns \<and> ''report'' \<in> set AuditLog_columns \<and>
   (\<exists>m. Telemetry [(''job_id'', a), (''cpu_usage'', b), (''ram_usage_mb'', c),
                    (''container_id'', d)] = Inl (TypeError m)) \<and>
   (\<exists>m. Telemetry [(''job_id'', a), (''cpu_usage'', b), (''ram_usage_mb'', c),
                    (''current_tool'', d)] = Inl (TypeError m)) \<and>
   (\<exists>m. AuditLog [(''job_id'', a), (''audit_report'', r)] = Inl (TypeError m)) \<and>
   collect_telemetry st j cid samples = st \<and>
   (p_current_tool data \<noteq> None \<or> p_audit_report data \<noteq> None \<longrightarrow>
      agent_callback st j data = (st, HTTP_500 ''Failed to process callback'')) \<and>
   telemetry (fst (agent_callback st j data)) = telemetry st \<and>
   audit_logs (fst (agent_callback st j data)) = audit_logs st \<and>
   telemetry (fst (execute_job st j e)) = telemetry st \<and>
   audit_logs (fst (execute_job st j e)) = audit_logs st"
proof -
  have cols: "''cpu_usage'' \<notin> set Telemetry_columns \<and> ''ram_usage_mb'' \<notin> set Telemetry_columns \<and>
   ''cpu_percent'' \<in> set Telemetry_columns \<and> ''ram_mb'' \<in> set Telemetry_columns \<and>
   ''audit_report'' \<notin> set AuditLog_columns \<and> ''report'' \<in> set AuditLog_columns"
    by (simp add: Telemetry_columns_def AuditLog_columns_def)
  have t1: "\<exists>m. Telemetry [(''job_id'', a), (''cpu_usage'', b), (''ram_usage_mb'', c),
                    (''container_id'', d)] = Inl (TypeError m)"
    by (simp add: Telemetry_def declarative_constructor_def Telemetry_columns_def)
  have t2: "\<exists>m. Telemetry [(''job_id'', a), (''cpu_usage'', b), (''ram_usage_mb'', c),
                    (''current_tool'', d)] = Inl (TypeError m)"
    by (simp add: Telemetry_def declarative_constructor_def Telemetry_columns_def)
  have t3: "\<exists>m. AuditLog [(''job_id'', a), (''audit_report'', r)] = Inl (TypeError m)"
    by (simp add: AuditLog_def declarative_constructor_def AuditLog_columns_def)
  have cb: "p_current_tool data \<noteq> None \<or> p_audit_report data \<noteq> None \<longrightarrow>
      agent_callback st j data = (st, HTTP_500 ''Failed to process callback'')"
    by (auto simp: agent_callback_eq)
  have cb2: "telemetry (fst (agent_callback st j data)) = telemetry st \<and>
   audit_logs (fst (agent_callback st j data)) = audit_logs st"
    using same_store_agent_callback[of cid st j data] by (simp add: same_store_def)
  show ?thesis
    using cols t1 t2 t3 cb cb2 collect_telemetry_eq[of st j cid samples]
      execute_job_tables[of st j e]
    by blast
qed

theorem no_telemetry_or_audit_row_is_persisted_witness:
  "p_current_tool tool_payload \<noteq> None \<and>
   agent_callback (sys0 BUILDING) ''J1'' tool_payload =
     (sys0 BUILDING, HTTP_500 ''Failed to process callback'') \<and>
   p_audit_report audit_payload \<noteq> None \<and>
   agent_callback (sys0 CHECKING) ''J1'' audit_payload =
     (sys0 CHECKING, HTTP_500 ''Failed to process callback'') \<and>
   telemetry (fst (execute_job (sys0 PENDING) ''J1'' env_happy)) = []"
  using no_telemetry_or_audit_row_is_persisted
          [where data = tool_payload and st = "sys0 BUILDING" and j = "''J1''"]
        no_telemetry_or_audit_row_is_persisted
          [where data = audit_payload and st = "sys0 CHECKING" and j = "''J1''"]
        no_telemetry_or_audit_row_is_persisted
          [where st = "sys0 PENDING" and j = "''J1''" and e = env_happy]
  by (simp add: tool_payload_def audit_payload_def no_payload_def sys0_def)

section \<open>Callbacks for a job without a bus\<close>

lemma finally_block_events: "job_events (finally_block st j) j = None"
  by (simp add: finally_block_def)





section \<open>Cleanup when a job fails\<close>

text \<open>
  Claim C1, evaluated where it fails. A job whose Builder reports an error by callback
  ends failed while its Builder container is still running and its workspace volume
  still exists; a job whose Builder exits with code 2 ends failed with its volume
  still there. Only \<open>approve_job\<close> and \<open>reject_job\<close> stop containers and remove the
  volume; the \<open>finally\<close> block of \<open>_execute_job\<close> does neither.
\<close>

theorem failed_job_keeps_sandbox_and_volume:
  "execute_job (sys0 PENDING) ''J1'' env_error_callback =
     (\<lparr>jobs = [''J1'' \<mapsto>
          \<lparr>task = ''write hello'', status = FAILED, project_path = ''/p'', created_at = 0,
             completed_at = Some 7, builder_container_id = Some ''b1'',
             checker_container_id = None,
             error_message = Some ''Agent error: LLM unreachable''\<rparr>],
        telemetry = [], audit_logs = [],
        containers = [(''b1'', \<lparr>cname = ''icarus_builder_J1'', cstate = Running\<rparr>)],
        volumes = [''icarus_workspace_J1''], active_jobs = [], job_events = Map.empty,
        queue = [], max_concurrent = 3,
        status_log = [(''J1'', BUILDING), (''J1'', FAILED)], clock = 7\<rparr>, Normal) \<and>
   alive (fst (execute_job (sys0 PENDING) ''J1'' env_error_callback)) ''b1'' \<and>
   job_status (fst (execute_job (sys0 PENDING) ''J1'' env_exit_2)) ''J1'' = Some FAILED \<and>
   volumes (fst (execute_job (sys0 PENDING) ''J1'' env_exit_2)) = [workspace_volume ''J1'']"
  by (simp add: model_defs env_error_callback_def env_exit_2_def str_defs)

section \<open>The sentinel and the admission loop\<close>

lemmas sentinel_defs = check_resources_def get_system_stats_def clear_alerts_def
  trigger_red_alert_def pause_one_def resume_one_def set_cstate_def process_queue_def
  sentinel0_def reading0_def sys_paused_def sys_queued_def sys0_def job0_def Let_def




text \<open>
  Claim C4, as amended. With a sentinel configured and room under the concurrency
  limit, the admission loop takes a fresh reading of the host: at 80 percent or more
  (of CPU or RAM, the constant of the code) the job id goes back to the end of the queue
  and the loop sleeps 10 seconds; below 80, or when the reading fails, or without a
  sentinel, the job is marked in flight and dispatched. The sentinel's alert level
  and thresholds play no part: the outcome is the same for any two sentinels.
\<close>

theorem admission_is_gated_by_a_fresh_reading:
  "(queue st = job_id # rest \<and> length (active_jobs st) < max_concurrent st \<longrightarrow>
      (max (cpu_percent r) (ram_percent r) \<ge> 80 \<longrightarrow>
         process_queue st (Some sm) (Some r) = (st\<lparr>queue := rest @ [job_id]\<rparr>, Requeued 10)) \<and>
      (max (cpu_percent r) (ram_percent r) < 80 \<longrightarrow>
         process_queue st (Some sm) (Some r) =
           (st\<lparr>queue := rest, active_jobs := List.insert job_id (active_jobs st)\<rparr>,
            Dispatched job_id)) \<and>
      process_queue st (Some sm) None =
        (st\<lparr>queue := rest, active_jobs := List.insert job_id (active_jobs st)\<rparr>,
         Dispatched job_id) \<and>
      process_queue st None reading =
        (st\<lparr>queue := rest, active_jobs := List.insert job_id (active_jobs st)\<rparr>,
         Dispatched job_id)) \<and>
   process_queue st (Some sm) reading = process_queue st (Some sm') reading"
  by (auto simp: process_queue_def get_system_stats_def split: list.splits)

theorem admission_is_gated_by_a_fresh_reading_witness:
  "queue sys_queued = [''J1''] \<and> length (active_jobs sys_queued) < max_concurrent sys_queued \<and>
   max (cpu_percent (reading0 85 10)) (ram_percent (reading0 85 10)) \<ge> 80 \<and>
   process_queue sys_queued (Some (sentinel0 80 GREEN [])) (Some (reading0 85 10)) =
     (sys_queued\<lparr>queue := [''J1'']\<rparr>, Requeued 10) \<and>
   max (cpu_percent (reading0 10 20)) (ram_percent (reading0 10 20)) < 80 \<and>
   process_queue sys_queued (Some (sentinel0 80 GREEN [])) (Some (reading0 10 20)) =
     (sys_queued\<lparr>queue := [], active_jobs := [''J1'']\<rparr>, Dispatched ''J1'')"
  using admission_is_gated_by_a_fresh_reading
          [where st = sys_queued and job_id = "''J1''" and rest = "[]"
             and r = "reading0 85 10" and sm = "sentinel0 80 GREEN []"]
        admission_is_gated_by_a_fresh_reading
          [where st = sys_queued and job_id = "''J1''" and rest = "[]"
             and r = "reading0 10 20" and sm = "sentinel0 80 GREEN []"]
  by (simp add: sys_queued_def sys0_def reading0_def)

text \<open>
  Claim C4 as stated fails: a sentinel that a reading of 95 has just put at RED does
  not stop a dispatch when the loop's own reading is 10, and with a yellow threshold
  of 50 a reading of 60 puts the sentinel at YELLOW and still lets the job through.
\<close>

theorem dispatch_under_yellow_or_red_counterexample:
  "current_alert (fst (check_resources (sentinel0 80 GREEN []) sys_queued (Some (reading0 95 10))))
     = RED \<and>
   snd (process_queue sys_queued
          (Some (fst (check_resources (sentinel0 80 GREEN []) sys_queued (Some (reading0 95 10)))))
          (Some (reading0 10 10))) = Dispatched ''J1'' \<and>
   current_alert (fst (check_resources (sentinel0 50 GREEN []) sys_queued (Some (reading0 60 10))))
     = YELLOW \<and>
   snd (process_queue sys_queued
          (Some (fst (check_resources (sentinel0 50 GREEN []) sys_queued (Some (reading0 60 10)))))
          (Some (reading0 60 10))) = Dispatched ''J1''"
  by (simp add: sentinel_defs)

section \<open>A stage along polls, an exit, a timeout or an error callback\<close>


lemma map_of_update_key:
  "map_of (map (\<lambda>kc. if fst kc = c then (fst kc, f (snd kc)) else kc) xs) c =
     map_option f (map_of xs c)"
  by (induction xs) auto

lemma map_of_fresh: "c \<notin> fst ` set xs \<Longrightarrow> map_of (xs @ [(c, v)]) c = Some v"
  by (induction xs) auto


lemma filter_fresh: "c \<notin> fst ` set xs \<Longrightarrow> filter (\<lambda>kc. fst kc \<noteq> c) xs = xs"
  by (induction xs) auto

lemma builder_entry_facts:
  "fired (builder_entry st j job c) j = None"
  "job_events (builder_entry st j job c) j = Some fresh_events"
  "jobs (builder_entry st j job c) j = Some (job\<lparr>status := BUILDING, builder_container_id := Some c\<rparr>)"
  "status_log (builder_entry st j job c) = status_log st @ [(j, BUILDING)]"
  "containers (builder_entry st j job c) =
     containers st @ [(c, \<lparr>cname = ''icarus_builder_'' @ j, cstate = Running\<rparr>)]"
  by (simp_all add: builder_entry_def fired_def decide_events_def fresh_events_def)


lemma supervise_race:
  assumes "job_events st j = Some ev" "race st j c 600 ticks = (st', r, rest)"
  shows "supervise st j c samples ticks = (late_events st' j c rest, r)"
  using assms by (simp add: supervise_def collect_telemetry_eq wait_for_container_with_events_def)

lemma container_exits_facts:
  "fired (container_exits st c code) j = fired st j"
  "job_events (container_exits st c code) = job_events st"
  "map_of (containers (container_exits st c code)) c =
     map_option (\<lambda>k. k\<lparr>cstate := Exited code\<rparr>) (map_of (containers st) c)"
  by (simp_all add: container_exits_def fired_def map_of_update_key)

lemma supervise_exit:
  assumes "job_events st j = Some ev" "fired st j = None" "map_of (containers st) c = Some k"
    "cstate k = Running \<or> cstate k = Paused" "\<forall>x\<in>set ts. x \<le> 600"
  shows "supervise st j c samples (map Poll ts @ Exits code # Poll t # late) =
     (late_events (container_exits st c code) j c late, Returned code)"
proof -
  have q: "race st j c 600 (map Poll ts @ Exits code # Poll t # late) =
      race st j c 600 (Exits code # Poll t # late)"
    using race_quiet_polls[OF assms(2,3,4), of ts 600] assms(5) by simp
  have "race (container_exits st c code) j c 600 (Poll t # late) =
      (container_exits st c code, Returned code, late)"
    by (rule race_poll_exited[where cont = "k\<lparr>cstate := Exited code\<rparr>"])
       (simp_all add: container_exits_facts assms)
  then have "race st j c 600 (map Poll ts @ Exits code # Poll t # late) =
      (container_exits st c code, Returned code, late)"
    using q assms(2) by simp
  then show ?thesis using supervise_race[OF assms(1)] by simp
qed




lemma same_store_late_fields:
  "jobs (late_events st j c ticks) = jobs st"
  "status_log (late_events st j c ticks) = status_log st"
  "filter (\<lambda>kc. fst kc \<noteq> c) (containers (late_events st j c ticks)) =
     filter (\<lambda>kc. fst kc \<noteq> c) (containers st)"
  using same_store_late_events[of c st j ticks] by (simp_all add: same_store_def)

section \<open>A Builder that exits with a non-zero code\<close>

lemma builder_failed_exit:
  assumes "jobs st j = Some job" "create_volume e = None" "builder_spawn e = Inr c"
    "c \<notin> fst ` set (containers st)"
    "builder_ticks e = map Poll ts @ Exits code # Poll t # late" "\<forall>x\<in>set ts. x \<le> 600"
    "code \<noteq> 0"
  shows "execute_job st j e =
    (finally_block (mark (late_events (container_exits (builder_entry st j job c) c code) j c late)
        j FAILED (Some (''Builder exited with non-zero code: '' @ str_int code))) j, Normal)"
proof -
  let ?k = "\<lparr>cname = ''icarus_builder_'' @ j, cstate = Running\<rparr>"
  have m: "map_of (containers (builder_entry st j job c)) c = Some ?k"
    using assms(4) by (simp add: builder_entry_facts map_of_fresh del: map_of_append)
  have s: "supervise (builder_entry st j job c) j c (builder_samples e) (builder_ticks e) =
     (late_events (container_exits (builder_entry st j job c) c code) j c late, Returned code)"
    unfolding assms(5)
    by (rule supervise_exit[OF builder_entry_facts(2) builder_entry_facts(1) m _ assms(6)]) simp
  show ?thesis
    using execute_job_unfold[OF assms(1,2,3) s] assms(7) by simp
qed

text \<open>
  Claim C10, as amended. When the Builder's container keeps running through some
  polls within the budget, then exits with a non-zero code that the next poll reads,
  the job is marked failed with the error message
  \<open>Builder exited with non-zero code: \<close> followed by the code, the writes are building
  then failed, the job's Checker handle is left as it was, and apart from the Builder's
  container the containers are those that existed before: no Checker was spawned.
\<close>

theorem builder_nonzero_exit_fails_job_without_checker:
  assumes "jobs st j = Some job" "create_volume e = None" "builder_spawn e = Inr c"
    "c \<notin> fst ` set (containers st)"
    "builder_ticks e = map Poll ts @ Exits code # Poll t # late" "\<forall>x\<in>set ts. x \<le> 600"
    "code \<noteq> 0"
  shows "snd (execute_job st j e) = Normal \<and>
    job_status (fst (execute_job st j e)) j = Some FAILED \<and>
    map_option error_message (jobs (fst (execute_job st j e)) j) =
      Some (Some (''Builder exited with non-zero code: '' @ str_int code)) \<and>
    status_log (fst (execute_job st j e)) = status_log st @ [(j, BUILDING), (j, FAILED)] \<and>
    map_option checker_container_id (jobs (fst (execute_job st j e)) j) =
      Some (checker_container_id job) \<and>
    filter (\<lambda>kc. fst kc \<noteq> c) (containers (fst (execute_job st j e))) = containers st"
proof -
  let ?s4 = "late_events (container_exits (builder_entry st j job c) c code) j c late"
  let ?m = "''Builder exited with non-zero code: '' @ str_int code"
  have ex: "execute_job st j e = (finally_block (mark ?s4 j FAILED (Some ?m)) j, Normal)"
    using builder_failed_exit[OF assms] .
  have j4: "jobs ?s4 j = Some (job\<lparr>status := BUILDING, builder_container_id := Some c\<rparr>)"
    by (simp add: same_store_late_fields container_exits_def builder_entry_facts)
  have l4: "status_log ?s4 = status_log st @ [(j, BUILDING)]"
    by (simp add: same_store_late_fields container_exits_def builder_entry_facts)
  have c4: "filter (\<lambda>kc. fst kc \<noteq> c) (containers ?s4) = containers st"
    using assms(4)
    by (simp add: same_store_late_fields container_exits_def builder_entry_facts
        filter_others_update filter_fresh)
  show ?thesis
    using ex mark_status[OF j4] mark_log[OF j4] mark_error_message[OF j4, of ?m FAILED]
      mark_container_ids[OF j4] l4 c4
    by simp
qed

theorem builder_nonzero_exit_fails_job_without_checker_witness:
  "jobs (sys0 PENDING) ''J1'' = Some (job0 PENDING) \<and> create_volume env_exit_2 = None \<and>
   builder_spawn env_exit_2 = Inr ''b1'' \<and> ''b1'' \<notin> fst ` set (containers (sys0 PENDING)) \<and>
   builder_ticks env_exit_2 = map Poll [2, 4] @ Exits 2 # Poll 6 # [] \<and>
   job_status (fst (execute_job (sys0 PENDING) ''J1'' env_exit_2)) ''J1'' = Some FAILED \<and>
   map_option error_message (jobs (fst (execute_job (sys0 PENDING) ''J1'' env_exit_2)) ''J1'') =
      Some (Some ''Builder exited with non-zero code: 2'') \<and>
   status_log (fst (execute_job (sys0 PENDING) ''J1'' env_exit_2)) =
      [(''J1'', BUILDING), (''J1'', FAILED)] \<and>
   filter (\<lambda>kc. fst kc \<noteq> ''b1'') (containers (fst (execute_job (sys0 PENDING) ''J1'' env_exit_2)))
      = []"
proof -
  have a: "jobs (sys0 PENDING) ''J1'' = Some (job0 PENDING)" by (simp add: sys0_def)
  have b: "create_volume env_exit_2 = None" "builder_spawn env_exit_2 = Inr ''b1''"
    by (simp_all add: env_exit_2_def env0_def)
  have c: "''b1'' \<notin> fst ` set (containers (sys0 PENDING))" by (simp add: sys0_def)
  have d: "builder_ticks env_exit_2 = map Poll [2, 4] @ Exits 2 # Poll 6 # []"
    by (simp add: env_exit_2_def env0_def)
  have e: "\<forall>x\<in>set [2, 4::real]. x \<le> 600" by simp
  have f: "(2::int) \<noteq> 0" by simp
  have s: "str_int 2 = ''2''" by (simp add: str_defs)
  have l: "status_log (sys0 PENDING) = []" "containers (sys0 PENDING) = []"
    by (simp_all add: sys0_def)
  show ?thesis
    using builder_nonzero_exit_fails_job_without_checker[OF a b c d e f] a b c d s l
    by simp
qed

text \<open>
  Claim C10 as stated fails on the text of the message: for exit code 2 it is
  \<open>Builder exited with non-zero code: 2\<close>, which does not contain \<open>exit code 2\<close>.
\<close>

theorem exit_code_message_counterexample:
  "job_status (fst (execute_job (sys0 PENDING) ''J1'' env_exit_2)) ''J1'' = Some FAILED \<and>
   map_option error_message (jobs (fst (execute_job (sys0 PENDING) ''J1'' env_exit_2)) ''J1'') =
      Some (Some ''Builder exited with non-zero code: 2'') \<and>
   \<not> sublist ''exit code 2'' ''Builder exited with non-zero code: 2''"
proof -
  have "\<not> sublist ''exit code 2'' ''Builder exited with non-zero code: 2''"
    by (simp add: sublist_code prefix_code del: sublist_Cons_right)
  then show ?thesis
    by (simp add: model_defs env_exit_2_def str_defs)
qed

section \<open>The budget of a stage\<close>











section \<open>The three-way wait\<close>










end
